theory Spec2Isabelle
  imports Main "HOL-Library.Word"
begin

section \<open>JavaScript values used by the form\<close>

text \<open>
  A plain JavaScript object with string values is modelled by the list of its own
  enumerable properties in the order \<open>Object.entries\<close> yields them (insertion order for
  names that are not array indices, which is the case for every feature name). Its
  prototype is \<open>Object.prototype\<close>. Property values are strings, as the type
  \<open>MushroomFeatures\<close> and the cast \<open>value as string\<close> say. Strings are \<open>string\<close>;
  feature names and messages are ASCII. A handler is modelled on its own, from the
  state it was rendered with to the effects it has, with no other handler running
  between its steps.
\<close>

type_synonym js_object = "(string \<times> string) list"

text \<open>The property names every plain object inherits from \<open>Object.prototype\<close>.\<close>

definition Object_prototype_names :: "string list" where
  "Object_prototype_names =
     [''constructor'', ''__defineGetter__'', ''__defineSetter__'', ''hasOwnProperty'',
      ''__lookupGetter__'', ''__lookupSetter__'', ''isPrototypeOf'',
      ''propertyIsEnumerable'', ''toString'', ''valueOf'', ''__proto__'',
      ''toLocaleString'']"

definition Object_entries :: "js_object \<Rightarrow> (string \<times> string) list" where
  "Object_entries obj = obj"

definition Object_keys :: "js_object \<Rightarrow> string list" where
  "Object_keys obj = map fst obj"

definition has_own :: "js_object \<Rightarrow> string \<Rightarrow> bool" where
  "has_own obj key = (key \<in> set (Object_keys obj))"

text \<open>\<open>key in obj\<close>: true for an own property and for an inherited one.\<close>

definition js_in :: "string \<Rightarrow> js_object \<Rightarrow> bool" where
  "js_in key obj = (has_own obj key \<or> key \<in> set Object_prototype_names)"

text \<open>
  Defining an own data property, as object spread and a computed key
  \<open>{...prev, [feature]: value}\<close> do: an existing own property keeps its place, a new
  one goes last.
\<close>

fun define_property :: "js_object \<Rightarrow> string \<Rightarrow> string \<Rightarrow> js_object" where
  "define_property [] key v = [(key, v)]"
| "define_property ((k, w) # obj) key v =
     (if k = key then (key, v) # obj else (k, w) # define_property obj key v)"

text \<open>
  The assignment \<open>obj[key] = value\<close> of a string. An own property is overwritten. The
  inherited \<open>__proto__\<close> is an accessor whose setter ignores a value that is not an
  object; every other inherited property of \<open>Object.prototype\<close> is a writable data
  property, so the assignment creates an own property, as it does for a fresh name.
\<close>

definition js_assign :: "js_object \<Rightarrow> string \<Rightarrow> string \<Rightarrow> js_object" where
  "js_assign obj key v =
     (if has_own obj key then define_property obj key v
      else if key = ''__proto__'' then obj
      else define_property obj key v)"

text \<open>\<open>{...obj}\<close> copies the own enumerable properties in order.\<close>

definition spread :: "js_object \<Rightarrow> js_object" where
  "spread obj = Object_entries obj"

text \<open>Truthiness of a string: only the empty string is falsy.\<close>

definition truthy :: "string \<Rightarrow> bool" where
  "truthy v = (v \<noteq> [])"

subsection \<open>String operations\<close>

text \<open>\<open>s.split(sep)\<close> for a one-character separator; the result is never empty.\<close>

fun split :: "char \<Rightarrow> string \<Rightarrow> string list" where
  "split sep [] = [[]]"
| "split sep (c # cs) =
     (if c = sep then [] # split sep cs
      else (case split sep cs of [] \<Rightarrow> [[c]] | w # ws \<Rightarrow> (c # w) # ws))"

text \<open>\<open>xs.join(sep)\<close>.\<close>

fun join :: "string \<Rightarrow> string list \<Rightarrow> string" where
  "join sep [] = []"
| "join sep [x] = x"
| "join sep (x # y # ys) = x @ sep @ join sep (y # ys)"

definition array_includes :: "string list \<Rightarrow> string \<Rightarrow> bool" where
  "array_includes xs x = (x \<in> set xs)"

definition charAt0 :: "string \<Rightarrow> string" where
  "charAt0 w = take 1 w"

definition slice1 :: "string \<Rightarrow> string" where
  "slice1 w = drop 1 w"

definition toUpperCase_char :: "char \<Rightarrow> char" where
  "toUpperCase_char c =
     (case map_of (zip ''abcdefghijklmnopqrstuvwxyz'' ''ABCDEFGHIJKLMNOPQRSTUVWXYZ'') c of
        Some u \<Rightarrow> u
      | None \<Rightarrow> c)"

definition toUpperCase :: "string \<Rightarrow> string" where
  "toUpperCase w = map toUpperCase_char w"

text \<open>
  \<open>key.split('-').map(word => word.charAt(0).toUpperCase() + word.slice(1)).join(' ')\<close>
\<close>

definition capitalize :: "string \<Rightarrow> string" where
  "capitalize word = toUpperCase (charAt0 word) @ slice1 word"

definition humanize :: "string \<Rightarrow> string" where
  "humanize key = join '' '' (map capitalize (split CHR ''-'' key))"

section \<open>The form component (App.tsx)\<close>

definition REQUIRED_FEATURES :: "string list" where
  "REQUIRED_FEATURES =
     [''odor'', ''spore-print-color'', ''gill-color'', ''cap-color'', ''bruises'',
      ''ring-type'', ''gill-spacing'', ''cap-shape'', ''population'', ''habitat'',
      ''stalk-surface-above-ring'', ''cap-surface'']"

text \<open>
  \<open>PredictionResult\<close>. The confidence is an IEEE-754 double, kept as its 64-bit
  pattern: the model stores and compares it and never computes with it.
\<close>

datatype prediction_result =
  PredictionResult (prediction: string) (confidence: "64 word")

text \<open>The component state: one field per \<open>useState\<close>.\<close>

record app_state =
  result :: "prediction_result option"
  loading :: bool
  error :: "string option"
  imagePreview :: "string option"
  features :: js_object

text \<open>Values that can be thrown or that reject a promise.\<close>

datatype error_data = ErrorData (error_prop: "string option")

datatype error_response = ErrorResponse (err_status: nat) (err_data: "error_data option")

datatype thrown =
    Error string
  | TypeError string
  | AxiosError string (err_response: "error_response option")

text \<open>\<open>err.response?.data?.error\<close>; \<open>None\<close> is \<open>undefined\<close>.\<close>

fun response_data_error :: "thrown \<Rightarrow> string option" where
  "response_data_error (AxiosError m (Some (ErrorResponse st (Some (ErrorData e))))) = e"
| "response_data_error err = None"

datatype 'd axios_response = AxiosResponse (status: nat) (data: 'd)

datatype js_file = File (file_name: string) (file_content: string)

text \<open>
  The body of the image-analysis response after \<open>response.json()\<close>: \<open>null\<close>, on which
  reading \<open>data.features\<close> throws, or a value whose \<open>features\<close> property is falsy
  or absent (\<open>None\<close>) or has the given entries.
\<close>

datatype analysis_data = JsonNull | JsonValue (detected: "js_object option")

datatype fetch_response = FetchResponse (ok: bool) (json: "thrown + analysis_data")

text \<open>
  What the handlers do besides computing, in program order: state setters, network
  requests and console output.
\<close>

datatype effect =
    PreventDefault
  | SetResult prediction_result
  | SetLoading bool
  | SetError "string option"
  | SetImagePreview string
  | SetFeatures js_object
  | AxiosPost string js_object
  | Fetch string "(string \<times> js_file) list"
  | ConsoleLog string analysis_data
  | ConsoleError string thrown

text \<open>
  The surroundings of the component: the build-time variable \<open>VITE_API_URL\<close>, the
  outcome of each network call (\<open>Inl\<close> is a rejected promise) and
  \<open>URL.createObjectURL\<close>.
\<close>

record env =
  VITE_API_URL :: "string option"
  axios_post :: "string \<Rightarrow> js_object \<Rightarrow> thrown + prediction_result axios_response"
  fetch :: "string \<Rightarrow> (string \<times> js_file) list \<Rightarrow> thrown + fetch_response"
  createObjectURL :: "js_file \<Rightarrow> string"

text \<open>\<open>import.meta.env.VITE_API_URL || 'http://localhost:5000'\<close>\<close>

definition API_URL :: "env \<Rightarrow> string" where
  "API_URL e =
     (case VITE_API_URL e of
        None \<Rightarrow> ''http://localhost:5000''
      | Some u \<Rightarrow> if truthy u then u else ''http://localhost:5000'')"

text \<open>
  The initial feature mapping: every key of \<open>featureDescriptions\<close> (a table that is a
  parameter here, given by its keys) assigned the empty string.
\<close>

definition initial_features :: "string list \<Rightarrow> js_object" where
  "initial_features keys = foldl (\<lambda>acc key. js_assign acc key '''') [] keys"

definition handleFeatureChange :: "app_state \<Rightarrow> string \<Rightarrow> string \<Rightarrow> effect list" where
  "handleFeatureChange s feature v =
     [SetFeatures (define_property (spread (features s)) feature v)]"

text \<open>The \<open>catch\<close> block of \<open>handleImageUpload\<close>.\<close>

definition image_catch :: "thrown \<Rightarrow> effect list" where
  "image_catch err =
     [ConsoleError ''Error analyzing image:'' err,
      SetError (Some ''Failed to analyze image. Please try again.'')]"

text \<open>The \<open>forEach\<close> over the detected entries, updating \<open>newFeatures\<close> in place.\<close>

definition update_detected :: "js_object \<Rightarrow> (string \<times> string) list \<Rightarrow> js_object" where
  "update_detected newFeatures entries =
     foldl (\<lambda>acc (key, v). if js_in key acc then js_assign acc key v else acc)
       newFeatures entries"

text \<open>
  \<open>handleImageUpload\<close>; \<open>files\<close> is \<open>event.target.files\<close> (\<open>None\<close> is \<open>null\<close>). The
  handler reads \<open>features\<close> from the state it was rendered with.
\<close>

definition handleImageUpload :: "env \<Rightarrow> app_state \<Rightarrow> js_file list option \<Rightarrow> effect list" where
  "handleImageUpload e s files =
     (case files of
        None \<Rightarrow> []
      | Some [] \<Rightarrow> []
      | Some (file # rest) \<Rightarrow>
          (let formData = [(''image'', file)];
               url = API_URL e @ ''/analyze-image''
           in [SetImagePreview (createObjectURL e file), SetLoading True, Fetch url formData] @
              (case fetch e url formData of
                 Inl err \<Rightarrow> image_catch err
               | Inr response \<Rightarrow>
                   if \<not> ok response then image_catch (Error ''Failed to analyze image'')
                   else (case json response of
                           Inl err \<Rightarrow> image_catch err
                         | Inr d \<Rightarrow>
                             [ConsoleLog ''Image analysis results:'' d] @
                             (case d of
                                JsonNull \<Rightarrow>
                                  image_catch
                                    (TypeError ''Cannot read properties of null'')
                              | JsonValue None \<Rightarrow> []
                              | JsonValue (Some fs) \<Rightarrow>
                                  [SetFeatures
                                     (update_detected (spread (features s))
                                        (Object_entries fs))]))) @
              [SetLoading False]))"

text \<open>The keys of the required fields that are empty, and their labels.\<close>

definition emptyRequiredEntries :: "js_object \<Rightarrow> (string \<times> string) list" where
  "emptyRequiredEntries fs =
     filter (\<lambda>(key, v). array_includes REQUIRED_FEATURES key \<and> \<not> truthy v) (Object_entries fs)"

definition emptyRequiredFields :: "js_object \<Rightarrow> string list" where
  "emptyRequiredFields fs = map (\<lambda>(key, v). humanize key) (emptyRequiredEntries fs)"

text \<open>The \<open>catch\<close> block of \<open>handleSubmit\<close>.\<close>

definition submit_catch :: "thrown \<Rightarrow> effect list" where
  "submit_catch err =
     (case response_data_error err of
        Some m \<Rightarrow>
          if truthy m then [SetError (Some m)]
          else [SetError (Some ''Failed to get prediction. Please try again.'')]
      | None \<Rightarrow> [SetError (Some ''Failed to get prediction. Please try again.'')]) @
     [ConsoleError ''Prediction error:'' err]"

definition handleSubmit :: "env \<Rightarrow> app_state \<Rightarrow> effect list" where
  "handleSubmit e s =
     [PreventDefault, SetLoading True, SetError None] @
     (if length (emptyRequiredFields (features s)) > 0
      then [SetError
              (Some (''Please fill in all required fields: '' @
                     join '', '' (emptyRequiredFields (features s)))),
            SetLoading False]
      else (let url = API_URL e @ ''/predict''
            in [AxiosPost url (features s)] @
               (case axios_post e url (features s) of
                  Inr response \<Rightarrow> [SetResult (data response)]
                | Inl err \<Rightarrow> submit_catch err) @
               [SetLoading False]))"

text \<open>Applying the effects to the state: only the setters change it.\<close>

fun apply_effect :: "effect \<Rightarrow> app_state \<Rightarrow> app_state" where
  "apply_effect (SetResult r) s = s\<lparr>result := Some r\<rparr>"
| "apply_effect (SetLoading b) s = s\<lparr>loading := b\<rparr>"
| "apply_effect (SetError m) s = s\<lparr>error := m\<rparr>"
| "apply_effect (SetImagePreview u) s = s\<lparr>imagePreview := Some u\<rparr>"
| "apply_effect (SetFeatures fs) s = s\<lparr>features := fs\<rparr>"
| "apply_effect ev s = s"

definition run :: "effect list \<Rightarrow> app_state \<Rightarrow> app_state" where
  "run evs s = fold apply_effect evs s"

text \<open>The network requests among the effects.\<close>

fun is_request :: "effect \<Rightarrow> bool" where
  "is_request (AxiosPost url body) = True"
| "is_request (Fetch url body) = True"
| "is_request ev = False"

definition requests :: "effect list \<Rightarrow> effect list" where
  "requests evs = filter is_request evs"

fun is_SetResult :: "effect \<Rightarrow> bool" where
  "is_SetResult (SetResult r) = True"
| "is_SetResult ev = False"

section \<open>The API client (services/api.ts)\<close>

definition API_BASE_URL :: "string" where
  "API_BASE_URL = ''http://localhost:8000''"

datatype api_body = Json js_object | FormData "(string \<times> js_file) list"

text \<open>A request carries its URL, the headers set for it and, for a POST, its body.\<close>

datatype api_effect =
    ApiPost string "(string \<times> string) list" api_body
  | ApiGet string "(string \<times> string) list"
  | ApiConsoleError string thrown

text \<open>
  The axios instance \<open>api\<close> is given by the outcome of its two methods on a URL (the
  base URL joined with the path) and a body; \<open>Inl\<close> is a rejected promise. Each client
  function returns what it logged and requested, and its own outcome.
\<close>

definition predictMushroom ::
  "(string \<Rightarrow> api_body \<Rightarrow> thrown + 'd axios_response) \<Rightarrow> js_object \<Rightarrow>
   api_effect list \<times> (thrown + 'd)" where
  "predictMushroom api_post fs =
     (let url = API_BASE_URL @ ''/api/predict'';
          req = ApiPost url [(''Content-Type'', ''application/json'')] (Json fs)
      in case api_post url (Json fs) of
           Inr response \<Rightarrow> ([req], Inr (data response))
         | Inl err \<Rightarrow> ([req, ApiConsoleError ''Error predicting mushroom:'' err], Inl err))"

definition analyzeImage ::
  "(string \<Rightarrow> api_body \<Rightarrow> thrown + 'd axios_response) \<Rightarrow> js_file \<Rightarrow>
   api_effect list \<times> (thrown + 'd)" where
  "analyzeImage api_post imageFile =
     (let formData = [(''image'', imageFile)];
          url = API_BASE_URL @ ''/analyze-image'';
          req = ApiPost url [(''Content-Type'', ''multipart/form-data'')] (FormData formData)
      in case api_post url (FormData formData) of
           Inr response \<Rightarrow> ([req], Inr (data response))
         | Inl err \<Rightarrow> ([req, ApiConsoleError ''Error analyzing image:'' err], Inl err))"

definition checkHealth ::
  "(string \<Rightarrow> thrown + 'd axios_response) \<Rightarrow> api_effect list \<times> (thrown + 'd)" where
  "checkHealth api_get =
     (let url = API_BASE_URL @ ''/api/health'';
          req = ApiGet url [(''Content-Type'', ''application/json'')]
      in case api_get url of
           Inr response \<Rightarrow> ([req], Inr (data response))
         | Inl err \<Rightarrow> ([req, ApiConsoleError ''Error checking health:'' err], Inl err))"

fun is_api_request :: "api_effect \<Rightarrow> bool" where
  "is_api_request (ApiConsoleError m err) = False"
| "is_api_request ev = True"

section \<open>Example inputs\<close>

text \<open>A server that cannot be reached, and one that answers every call.\<close>

definition env_down :: env where
  "env_down =
     \<lparr>VITE_API_URL = None,
      axios_post = (\<lambda>url body. Inl (AxiosError ''Network Error'' None)),
      fetch = (\<lambda>url body. Inl (TypeError ''Failed to fetch'')),
      createObjectURL = (\<lambda>f. ''blob:'' @ file_name f)\<rparr>"

text \<open>The double \<open>0.87\<close> is the bit pattern \<open>0x3FEBD70A3D70A3D7\<close>.\<close>

definition poisonous_087 :: prediction_result where
  "poisonous_087 = PredictionResult ''poisonous'' 0x3FEBD70A3D70A3D7"

definition env_up :: env where
  "env_up =
     \<lparr>VITE_API_URL = Some ''https://api.example.org'',
      axios_post = (\<lambda>url body. Inr (AxiosResponse 200 poisonous_087)),
      fetch = (\<lambda>url body.
        Inr (FetchResponse True
               (Inr (JsonValue (Some [(''odor'', ''f''), (''toString'', ''x''),
                                      (''colour'', ''red'')]))))),
      createObjectURL = (\<lambda>f. ''blob:'' @ file_name f)\<rparr>"

text \<open>A server that rejects a prediction with an error body whose message is empty.\<close>

definition env_empty_message :: env where
  "env_empty_message =
     env_down\<lparr>axios_post := (\<lambda>url body.
        Inl (AxiosError ''Request failed with status code 400''
               (Some (ErrorResponse 400 (Some (ErrorData (Some '''')))))))\<rparr>"

definition env_message :: env where
  "env_message =
     env_down\<lparr>axios_post := (\<lambda>url body.
        Inl (AxiosError ''Request failed with status code 400''
               (Some (ErrorResponse 400 (Some (ErrorData (Some ''Missing features'')))))))\<rparr>"

definition all_required_filled :: js_object where
  "all_required_filled =
     [(''cap-shape'', ''x''), (''cap-surface'', ''s''), (''cap-color'', ''n''),
      (''bruises'', ''t''), (''odor'', ''f''), (''gill-attachment'', ''''),
      (''gill-spacing'', ''c''), (''gill-size'', ''''), (''gill-color'', ''k''),
      (''stalk-surface-above-ring'', ''s''), (''veil-type'', ''''),
      (''ring-type'', ''p''), (''spore-print-color'', ''k''), (''population'', ''s''),
      (''habitat'', ''u'')]"

definition state_filled :: app_state where
  "state_filled =
     \<lparr>result = None, loading = False,
      error = Some ''Failed to analyze image. Please try again.'',
      imagePreview = None, features = all_required_filled\<rparr>"

definition state_missing :: app_state where
  "state_missing =
     \<lparr>result = Some poisonous_087, loading = False, error = None, imagePreview = None,
      features = [(''cap-shape'', ''''), (''odor'', ''n''), (''veil-type'', ''''),
                  (''spore-print-color'', '''')]\<rparr>"

text \<open>A form that already shows the result of an earlier successful submission.\<close>

definition state_after_success :: app_state where
  "state_after_success = state_filled\<lparr>result := Some poisonous_087, error := None\<rparr>"

text \<open>The same form when the feature table has no entry for \<open>odor\<close>.\<close>

definition state_no_odor :: app_state where
  "state_no_odor =
     state_filled\<lparr>features := filter (\<lambda>(k, v). k \<noteq> ''odor'') all_required_filled\<rparr>"

section \<open>Properties\<close>

lemmas js_defs =
  Object_entries_def Object_keys_def has_own_def js_in_def js_assign_def spread_def
  truthy_def array_includes_def Object_prototype_names_def

lemmas string_defs =
  humanize_def capitalize_def toUpperCase_def toUpperCase_char_def charAt0_def slice1_def

subsection \<open>Running effects\<close>

lemma run_keeps_result:
  "\<forall>ev\<in>set evs. \<not> is_SetResult ev \<Longrightarrow> result (run evs s) = result s"
proof (induction evs arbitrary: s)
  case Nil
  then show ?case by (simp add: run_def)
next
  case (Cons ev evs)
  have "result (apply_effect ev s) = result s"
    using Cons.prems by (cases ev) simp_all
  moreover have "result (run evs (apply_effect ev s)) = result (apply_effect ev s)"
    using Cons by simp
  ultimately show ?case by (simp add: run_def)
qed

lemma run_take_keeps_result:
  assumes "filter is_SetResult evs = []"
  shows "result (run (take n evs) s) = result s"
proof -
  have "\<forall>ev\<in>set evs. \<not> is_SetResult ev"
    using assms by (simp add: filter_empty_conv)
  then have "\<forall>ev\<in>set (take n evs). \<not> is_SetResult ev"
    by (meson in_set_takeD)
  then show ?thesis by (rule run_keeps_result)
qed

subsection \<open>Objects\<close>

lemma keys_define_property:
  "Object_keys (define_property fs k v) =
     (if has_own fs k then Object_keys fs else Object_keys fs @ [k])"
  by (induction fs k v rule: define_property.induct)
     (auto simp: Object_keys_def has_own_def)

lemma define_property_fresh:
  "\<not> has_own fs k \<Longrightarrow> define_property fs k v = fs @ [(k, v)]"
  by (induction fs k v rule: define_property.induct)
     (auto simp: has_own_def Object_keys_def)

lemma map_of_define_property: "map_of (define_property fs k v) = (map_of fs)(k \<mapsto> v)"
  by (induction fs k v rule: define_property.induct) auto

lemma has_own_map_of: "has_own fs k \<longleftrightarrow> map_of fs k \<noteq> None"
  by (simp add: has_own_def Object_keys_def map_of_eq_None_iff)

text \<open>
  The form starts with every feature of the table set to the empty string, in the
  order of the table.
\<close>

lemma initial_features_eq:
  assumes "distinct keys" and "''__proto__'' \<notin> set keys"
  shows "initial_features keys = map (\<lambda>k. (k, '''')) keys"
  using assms
proof (induction keys rule: rev_induct)
  case Nil
  then show ?case by (simp add: initial_features_def)
next
  case (snoc k keys)
  then have ih: "initial_features keys = map (\<lambda>k. (k, '''')) keys"
    by simp
  have fresh: "\<not> has_own (initial_features keys) k"
    using snoc.prems by (simp add: ih has_own_def Object_keys_def comp_def)
  have "initial_features (keys @ [k]) = js_assign (initial_features keys) k ''''"
    by (simp add: initial_features_def)
  also have "\<dots> = initial_features keys @ [(k, '''')]"
    using fresh snoc.prems by (auto simp: js_assign_def define_property_fresh)
  finally show ?case by (simp add: ih)
qed

text \<open>Selecting a value for a feature of the form changes no key.\<close>

lemma handleFeatureChange_keys:
  "has_own (features s) feature \<Longrightarrow>
   Object_keys (features (run (handleFeatureChange s feature v) s)) = Object_keys (features s)"
  by (simp add: handleFeatureChange_def run_def spread_def Object_entries_def
      keys_define_property)

subsection \<open>Validation of the required fields\<close>

lemma emptyRequiredFields_Nil_iff:
  "emptyRequiredFields fs = [] \<longleftrightarrow> (\<forall>k\<in>set REQUIRED_FEATURES. (k, '''') \<notin> set fs)"
  by (auto simp: emptyRequiredFields_def emptyRequiredEntries_def Object_entries_def
      array_includes_def truthy_def filter_empty_conv)

lemma emptyRequiredFields_eq:
  "emptyRequiredFields fs =
     map humanize (map fst (filter (\<lambda>(k, v). k \<in> set REQUIRED_FEATURES \<and> v = '''') fs))"
  by (simp add: emptyRequiredFields_def emptyRequiredEntries_def Object_entries_def
      array_includes_def truthy_def case_prod_unfold comp_def)

text \<open>The two paths of \<open>handleSubmit\<close>.\<close>

lemma handleSubmit_invalid:
  "emptyRequiredFields (features s) \<noteq> [] \<Longrightarrow>
   handleSubmit e s =
     [PreventDefault, SetLoading True, SetError None,
      SetError (Some (''Please fill in all required fields: '' @
                      join '', '' (emptyRequiredFields (features s)))),
      SetLoading False]"
  by (simp add: handleSubmit_def)

lemma handleSubmit_valid:
  "emptyRequiredFields (features s) = [] \<Longrightarrow>
   handleSubmit e s =
     [PreventDefault, SetLoading True, SetError None,
      AxiosPost (API_URL e @ ''/predict'') (features s)] @
     (case axios_post e (API_URL e @ ''/predict'') (features s) of
        Inr response \<Rightarrow> [SetResult (data response)]
      | Inl err \<Rightarrow> submit_catch err) @
     [SetLoading False]"
  by (simp add: handleSubmit_def Let_def)

lemma submit_catch_shape:
  "submit_catch err =
     [SetError (Some (case response_data_error err of
                        Some m \<Rightarrow> if m \<noteq> '''' then m
                                  else ''Failed to get prediction. Please try again.''
                      | None \<Rightarrow> ''Failed to get prediction. Please try again.'')),
      ConsoleError ''Prediction error:'' err]"
  by (simp add: submit_catch_def truthy_def split: option.splits)

text \<open>Which submissions make no request, and why labels identify required keys.\<close>

lemma handleSubmit_requests_Nil_iff:
  "requests (handleSubmit e s) = [] \<longleftrightarrow>
     (\<exists>k\<in>set REQUIRED_FEATURES. (k, '''') \<in> set (features s))"
proof (cases "emptyRequiredFields (features s) = []")
  case True
  then have "requests (handleSubmit e s) \<noteq> []"
    by (simp add: handleSubmit_valid requests_def)
  then show ?thesis
    using True by (simp add: emptyRequiredFields_Nil_iff)
next
  case False
  then have "requests (handleSubmit e s) = []"
    by (simp add: handleSubmit_invalid requests_def)
  then show ?thesis
    using False by (simp add: emptyRequiredFields_Nil_iff)
qed

text \<open>The labels of the twelve required features.\<close>

lemma humanize_REQUIRED_FEATURES:
  "map humanize REQUIRED_FEATURES =
     [''Odor'', ''Spore Print Color'', ''Gill Color'', ''Cap Color'', ''Bruises'',
      ''Ring Type'', ''Gill Spacing'', ''Cap Shape'', ''Population'', ''Habitat'',
      ''Stalk Surface Above Ring'', ''Cap Surface'']"
  by (simp add: REQUIRED_FEATURES_def string_defs)

lemma humanize_inj_on_REQUIRED_FEATURES: "inj_on humanize (set REQUIRED_FEATURES)"
proof -
  have "distinct (map humanize REQUIRED_FEATURES)"
    unfolding humanize_REQUIRED_FEATURES by simp
  then show ?thesis by (simp add: distinct_map)
qed

lemma reported_label_has_own:
  assumes "k \<in> set REQUIRED_FEATURES" and "humanize k \<in> set (emptyRequiredFields fs)"
  shows "has_own fs k"
proof -
  from assms(2) obtain k' where k': "k' \<in> set REQUIRED_FEATURES" "(k', '''') \<in> set fs"
    "humanize k' = humanize k"
    by (auto simp: emptyRequiredFields_eq)
  from k'(1,3) assms(1) have "k' = k"
    using humanize_inj_on_REQUIRED_FEATURES by (meson inj_onD)
  with k'(2) show ?thesis
    by (force simp: has_own_def Object_keys_def)
qed

text \<open>
  C1. When some required feature has the empty string as its value, \<open>handleSubmit\<close>
  makes no request, and the error message it leaves is the fixed prefix followed by
  the labels, joined by a comma and a space, of exactly the required keys whose value
  is empty, each label being the key split at hyphens with every word capitalised
  (\<open>humanize\<close>); loading is reset and the stored result is untouched.
\<close>

theorem handleSubmit_rejects_empty_required:
  assumes "\<exists>k\<in>set REQUIRED_FEATURES. (k, '''') \<in> set (features s)"
  shows "requests (handleSubmit e s) = [] \<and>
         error (run (handleSubmit e s) s) =
           Some (''Please fill in all required fields: '' @
                 join '', ''
                   (map humanize
                      (map fst (filter (\<lambda>(k, v). k \<in> set REQUIRED_FEATURES \<and> v = '''')
                                  (features s))))) \<and>
         set (map fst (filter (\<lambda>(k, v). k \<in> set REQUIRED_FEATURES \<and> v = '''')
                         (features s))) =
           {k \<in> set REQUIRED_FEATURES. (k, '''') \<in> set (features s)} \<and>
         loading (run (handleSubmit e s) s) = False \<and>
         result (run (handleSubmit e s) s) = result s"
proof -
  have "emptyRequiredFields (features s) \<noteq> []"
    using assms by (simp add: emptyRequiredFields_Nil_iff)
  then have tr: "handleSubmit e s =
     [PreventDefault, SetLoading True, SetError None,
      SetError (Some (''Please fill in all required fields: '' @
                      join '', '' (emptyRequiredFields (features s)))),
      SetLoading False]"
    by (rule handleSubmit_invalid)
  have keys:
    "set (map fst (filter (\<lambda>(k, v). k \<in> set REQUIRED_FEATURES \<and> v = '''') (features s))) =
       {k \<in> set REQUIRED_FEATURES. (k, '''') \<in> set (features s)}"
    by force
  show ?thesis
    unfolding tr using keys
    by (simp add: requests_def run_def emptyRequiredFields_eq)
qed

theorem handleSubmit_rejects_empty_required_witness:
  "(\<exists>k\<in>set REQUIRED_FEATURES. (k, '''') \<in> set (features state_missing)) \<and>
   requests (handleSubmit env_up state_missing) = [] \<and>
   error (run (handleSubmit env_up state_missing) state_missing) =
     Some ''Please fill in all required fields: Cap Shape, Spore Print Color''"
proof -
  have h: "\<exists>k\<in>set REQUIRED_FEATURES. (k, '''') \<in> set (features state_missing)"
    by (simp add: REQUIRED_FEATURES_def state_missing_def)
  show ?thesis
    using h handleSubmit_rejects_empty_required [OF h, of env_up]
    by (simp add: REQUIRED_FEATURES_def state_missing_def string_defs)
qed

text \<open>
  C10. Validation looks only at the own entries of the feature mapping. A required
  name that is not a key of the mapping is never among the reported labels and has no
  part in whether the submission is blocked: a request is withheld exactly when some
  other required feature is empty. When every required name is a key, a submission
  that makes its request has a non-empty value for every required feature.
\<close>

theorem validation_inspects_own_keys_only:
  "(k \<in> set REQUIRED_FEATURES \<and> \<not> has_own (features s) k \<longrightarrow>
      humanize k \<notin> set (emptyRequiredFields (features s)) \<and>
      (requests (handleSubmit e s) = [] \<longleftrightarrow>
         (\<exists>k'\<in>set REQUIRED_FEATURES - {k}. (k', '''') \<in> set (features s)))) \<and>
   ((\<forall>k\<in>set REQUIRED_FEATURES. has_own (features s) k) \<and>
      requests (handleSubmit e s) \<noteq> [] \<longrightarrow>
      (\<forall>k\<in>set REQUIRED_FEATURES. \<exists>v. (k, v) \<in> set (features s) \<and> v \<noteq> ''''))"
proof -
  have a: "humanize k \<notin> set (emptyRequiredFields (features s)) \<and>
      (requests (handleSubmit e s) = [] \<longleftrightarrow>
         (\<exists>k'\<in>set REQUIRED_FEATURES - {k}. (k', '''') \<in> set (features s)))"
    if req: "k \<in> set REQUIRED_FEATURES" and absent: "\<not> has_own (features s) k"
  proof -
    have 1: "humanize k \<notin> set (emptyRequiredFields (features s))"
      using req absent reported_label_has_own by blast
    have "(k, '''') \<notin> set (features s)"
      using absent by (force simp: has_own_def Object_keys_def)
    then have 2: "(\<exists>k'\<in>set REQUIRED_FEATURES. (k', '''') \<in> set (features s)) \<longleftrightarrow>
        (\<exists>k'\<in>set REQUIRED_FEATURES - {k}. (k', '''') \<in> set (features s))"
      by blast
    from 1 2 show ?thesis
      by (simp add: handleSubmit_requests_Nil_iff)
  qed
  have b: "\<forall>k\<in>set REQUIRED_FEATURES. \<exists>v. (k, v) \<in> set (features s) \<and> v \<noteq> ''''"
    if own: "\<forall>k\<in>set REQUIRED_FEATURES. has_own (features s) k"
      and posted: "requests (handleSubmit e s) \<noteq> []"
  proof
    fix k assume k: "k \<in> set REQUIRED_FEATURES"
    with own obtain v where v: "(k, v) \<in> set (features s)"
      by (fastforce simp: has_own_def Object_keys_def)
    from posted k have "(k, '''') \<notin> set (features s)"
      by (auto simp: handleSubmit_requests_Nil_iff)
    with v show "\<exists>v. (k, v) \<in> set (features s) \<and> v \<noteq> ''''"
      by metis
  qed
  from a b show ?thesis by blast
qed

theorem validation_inspects_own_keys_only_witness:
  "''odor'' \<in> set REQUIRED_FEATURES \<and> \<not> has_own (features state_no_odor) ''odor'' \<and>
   requests (handleSubmit env_up state_no_odor) \<noteq> [] \<and>
   list_all (\<lambda>k. has_own (features state_filled) k) REQUIRED_FEATURES \<and>
   requests (handleSubmit env_up state_filled) \<noteq> [] \<and>
   list_all (\<lambda>k. \<exists>v. (k, v) \<in> set (features state_filled) \<and> v \<noteq> '''') REQUIRED_FEATURES"
proof -
  have 1: "''odor'' \<in> set REQUIRED_FEATURES"
    by (simp add: REQUIRED_FEATURES_def)
  have 2: "\<not> has_own (features state_no_odor) ''odor''"
    by (simp add: state_no_odor_def has_own_def Object_keys_def all_required_filled_def)
  have 3: "\<not> (\<exists>k'\<in>set REQUIRED_FEATURES - {''odor''}. (k', '''') \<in> set (features state_no_odor))"
    by (simp add: REQUIRED_FEATURES_def state_no_odor_def all_required_filled_def)
  have 4: "\<forall>k\<in>set REQUIRED_FEATURES. has_own (features state_filled) k"
    by (simp add: REQUIRED_FEATURES_def state_filled_def has_own_def Object_keys_def
        all_required_filled_def)
  have 5: "requests (handleSubmit env_up state_filled) \<noteq> []"
    by (simp add: handleSubmit_requests_Nil_iff REQUIRED_FEATURES_def state_filled_def
        all_required_filled_def)
  from 1 2 3 validation_inspects_own_keys_only [of "''odor''" state_no_odor env_up]
  have 6: "requests (handleSubmit env_up state_no_odor) \<noteq> []"
    by blast
  from 4 5 validation_inspects_own_keys_only [of _ state_filled env_up]
  have 7: "\<forall>k\<in>set REQUIRED_FEATURES. \<exists>v. (k, v) \<in> set (features state_filled) \<and> v \<noteq> ''''"
    by blast
  from 1 2 4 5 6 7 show ?thesis
    by (simp add: list_all_iff)
qed

subsection \<open>Submission\<close>

text \<open>
  C2. When no required feature has the empty string as its value, \<open>handleSubmit\<close>
  makes exactly one request: a POST to the prediction endpoint whose body is the whole
  feature mapping as it stands, so every feature that is still unset is sent with the
  empty string.
\<close>

theorem handleSubmit_posts_full_mapping_once:
  assumes "\<forall>k\<in>set REQUIRED_FEATURES. (k, '''') \<notin> set (features s)"
  shows "requests (handleSubmit e s) = [AxiosPost (API_URL e @ ''/predict'') (features s)] \<and>
         (\<forall>k. (k, '''') \<in> set (features s) \<longrightarrow>
              (\<exists>url body. requests (handleSubmit e s) = [AxiosPost url body] \<and>
                          (k, '''') \<in> set (Object_entries body)))"
proof -
  have "emptyRequiredFields (features s) = []"
    using assms by (simp add: emptyRequiredFields_Nil_iff)
  then have "requests (handleSubmit e s) =
      [AxiosPost (API_URL e @ ''/predict'') (features s)]"
    by (simp add: handleSubmit_valid requests_def submit_catch_shape split: sum.splits)
  then show ?thesis
    by (simp add: Object_entries_def)
qed

theorem handleSubmit_posts_full_mapping_once_witness:
  "list_all (\<lambda>k. (k, '''') \<notin> set (features state_filled)) REQUIRED_FEATURES \<and>
   (''veil-type'', '''') \<in> set (features state_filled) \<and>
   requests (handleSubmit env_up state_filled) =
     [AxiosPost ''https://api.example.org/predict'' all_required_filled]"
proof -
  have h: "\<forall>k\<in>set REQUIRED_FEATURES. (k, '''') \<notin> set (features state_filled)"
    by (simp add: REQUIRED_FEATURES_def state_filled_def all_required_filled_def)
  have u: "API_URL env_up = ''https://api.example.org''"
    by (simp add: API_URL_def env_up_def truthy_def)
  show ?thesis
    using h handleSubmit_posts_full_mapping_once [OF h, of env_up]
    by (simp add: u list_all_iff) (simp add: state_filled_def all_required_filled_def)
qed

text \<open>
  C9. Whatever the form holds, the first three effects of \<open>handleSubmit\<close> are fixed and
  come before validation: the third clears the error message. A successful image
  analysis (the request is answered with an ok response whose body parses to a value
  other than \<open>null\<close>) leaves the error message as it was.
\<close>

theorem error_cleared_by_submit_kept_by_upload:
  "take 3 (handleSubmit e s) = [PreventDefault, SetLoading True, SetError None] \<and>
   error (run (take 3 (handleSubmit e s)) s) = None \<and>
   (fetch e (API_URL e @ ''/analyze-image'') [(''image'', file)] =
      Inr (FetchResponse True (Inr (JsonValue d))) \<longrightarrow>
    error (run (handleImageUpload e s (Some (file # rest))) s) = error s)"
proof -
  have a: "take 3 (handleSubmit e s) = [PreventDefault, SetLoading True, SetError None]"
    by (simp add: handleSubmit_def)
  have b: "error (run (handleImageUpload e s (Some (file # rest))) s) = error s"
    if "fetch e (API_URL e @ ''/analyze-image'') [(''image'', file)] =
      Inr (FetchResponse True (Inr (JsonValue d)))"
    using that by (cases d) (simp_all add: handleImageUpload_def Let_def run_def)
  from a b show ?thesis by (simp add: run_def)
qed

theorem error_cleared_by_submit_kept_by_upload_witness:
  "error state_filled = Some ''Failed to analyze image. Please try again.'' \<and>
   error (run (take 3 (handleSubmit env_up state_filled)) state_filled) = None \<and>
   error (run (handleImageUpload env_up state_filled (Some [File ''cap.png'' ''''])) state_filled) =
     Some ''Failed to analyze image. Please try again.''"
proof -
  have f: "fetch env_up (API_URL env_up @ ''/analyze-image'') [(''image'', File ''cap.png'' '''')] =
      Inr (FetchResponse True
             (Inr (JsonValue (Some [(''odor'', ''f''), (''toString'', ''x''),
                                    (''colour'', ''red'')]))))"
    by (simp add: env_up_def)
  note t = error_cleared_by_submit_kept_by_upload
      [of env_up state_filled "File ''cap.png'' ''''"
        "Some [(''odor'', ''f''), (''toString'', ''x''), (''colour'', ''red'')]" "[]"]
  have 0: "error state_filled = Some ''Failed to analyze image. Please try again.''"
    by (simp add: state_filled_def)
  from t have 1: "error (run (take 3 (handleSubmit env_up state_filled)) state_filled) = None"
    by blast
  from t f have 2:
    "error (run (handleImageUpload env_up state_filled (Some [File ''cap.png'' ''''])) state_filled) =
       error state_filled"
    by blast
  from 0 1 2 show ?thesis by simp
qed

text \<open>Where \<open>handleSubmit\<close> stores a result.\<close>

lemma handleSubmit_SetResult:
  "filter is_SetResult (handleSubmit e s) =
     (if \<exists>k\<in>set REQUIRED_FEATURES. (k, '''') \<in> set (features s) then []
      else case axios_post e (API_URL e @ ''/predict'') (features s) of
             Inr response \<Rightarrow> [SetResult (data response)]
           | Inl err \<Rightarrow> [])"
proof (cases "emptyRequiredFields (features s) = []")
  case True
  then show ?thesis
    using emptyRequiredFields_Nil_iff [of "features s"]
    by (simp add: handleSubmit_valid submit_catch_shape split: sum.splits)
next
  case False
  then show ?thesis
    using emptyRequiredFields_Nil_iff [of "features s"]
    by (simp add: handleSubmit_invalid)
qed

text \<open>
  C6, as stated, fails. The form shows the result of an earlier successful submission;
  a new submission is made while the server cannot be reached. After the three effects
  that open the attempt the earlier result is still stored, and it is still stored,
  beside the error message, when the attempt has failed.
\<close>

theorem stale_result_survives_failed_submission:
  "result state_after_success = Some poisonous_087 \<and>
   result (run (take 3 (handleSubmit env_down state_after_success)) state_after_success) =
     Some poisonous_087 \<and>
   requests (handleSubmit env_down state_after_success) =
     [AxiosPost ''http://localhost:5000/predict'' all_required_filled] \<and>
   error (run (handleSubmit env_down state_after_success) state_after_success) =
     Some ''Failed to get prediction. Please try again.'' \<and>
   result (run (handleSubmit env_down state_after_success) state_after_success) =
     Some poisonous_087"
proof -
  have v: "emptyRequiredFields (features state_after_success) = []"
    by (simp add: emptyRequiredFields_Nil_iff REQUIRED_FEATURES_def
        state_after_success_def state_filled_def all_required_filled_def)
  have u: "API_URL env_down = ''http://localhost:5000''"
    by (simp add: API_URL_def env_down_def)
  have tr: "handleSubmit env_down state_after_success =
     [PreventDefault, SetLoading True, SetError None,
      AxiosPost ''http://localhost:5000/predict'' all_required_filled,
      SetError (Some ''Failed to get prediction. Please try again.''),
      ConsoleError ''Prediction error:'' (AxiosError ''Network Error'' None),
      SetLoading False]"
    by (simp add: handleSubmit_valid [OF v] u)
       (simp add: env_down_def state_after_success_def state_filled_def submit_catch_shape)
  show ?thesis
    unfolding tr
    by (simp add: run_def requests_def state_after_success_def)
qed

text \<open>
  C6, amended. A submission stores a result at most once, and exactly when validation
  passes and the request succeeds: the result is then the body of the response. A
  submission that fails validation or whose request fails stores no result and
  discards none: at every point of the attempt, and after it, the result stored
  before is still there.
\<close>

theorem handleSubmit_result_only_on_success:
  "length (filter is_SetResult (handleSubmit e s)) \<le> 1 \<and>
   ((\<forall>k\<in>set REQUIRED_FEATURES. (k, '''') \<notin> set (features s)) \<and>
      axios_post e (API_URL e @ ''/predict'') (features s) = Inr response \<longrightarrow>
      filter is_SetResult (handleSubmit e s) = [SetResult (data response)] \<and>
      result (run (handleSubmit e s) s) = Some (data response)) \<and>
   ((\<exists>k\<in>set REQUIRED_FEATURES. (k, '''') \<in> set (features s)) \<or>
      axios_post e (API_URL e @ ''/predict'') (features s) = Inl err \<longrightarrow>
      filter is_SetResult (handleSubmit e s) = [] \<and>
      (\<forall>n. result (run (take n (handleSubmit e s)) s) = result s) \<and>
      result (run (handleSubmit e s) s) = result s)"
proof -
  have a: "length (filter is_SetResult (handleSubmit e s)) \<le> 1"
    by (simp add: handleSubmit_SetResult split: sum.splits)
  have b: "filter is_SetResult (handleSubmit e s) = [SetResult (data response)] \<and>
      result (run (handleSubmit e s) s) = Some (data response)"
    if ok: "\<forall>k\<in>set REQUIRED_FEATURES. (k, '''') \<notin> set (features s)"
      and r: "axios_post e (API_URL e @ ''/predict'') (features s) = Inr response"
  proof -
    have "emptyRequiredFields (features s) = []"
      using ok by (simp add: emptyRequiredFields_Nil_iff)
    then have "handleSubmit e s =
       [PreventDefault, SetLoading True, SetError None,
        AxiosPost (API_URL e @ ''/predict'') (features s), SetResult (data response),
        SetLoading False]"
      by (simp add: handleSubmit_valid r)
    then show ?thesis by (simp add: run_def)
  qed
  have c: "filter is_SetResult (handleSubmit e s) = [] \<and>
      (\<forall>n. result (run (take n (handleSubmit e s)) s) = result s) \<and>
      result (run (handleSubmit e s) s) = result s"
    if f: "(\<exists>k\<in>set REQUIRED_FEATURES. (k, '''') \<in> set (features s)) \<or>
      axios_post e (API_URL e @ ''/predict'') (features s) = Inl err"
  proof -
    have n: "filter is_SetResult (handleSubmit e s) = []"
      using f by (auto simp: handleSubmit_SetResult)
    have "result (run (take (length (handleSubmit e s)) (handleSubmit e s)) s) = result s"
      using n by (rule run_take_keeps_result)
    then show ?thesis
      using n by (simp add: run_take_keeps_result)
  qed
  from a b c show ?thesis by blast
qed

theorem handleSubmit_result_only_on_success_witness:
  "result (run (handleSubmit env_up state_filled) state_filled) = Some poisonous_087 \<and>
   result (run (handleSubmit env_down state_after_success) state_after_success) =
     Some poisonous_087 \<and>
   result (run (handleSubmit env_down state_missing) state_missing) = Some poisonous_087"
proof -
  have ok: "\<forall>k\<in>set REQUIRED_FEATURES. (k, '''') \<notin> set (features state_filled)"
    by (simp add: REQUIRED_FEATURES_def state_filled_def all_required_filled_def)
  have r: "axios_post env_up (API_URL env_up @ ''/predict'') (features state_filled) =
      Inr (AxiosResponse 200 poisonous_087)"
    by (simp add: env_up_def)
  have d: "axios_post env_down (API_URL env_down @ ''/predict'')
      (features state_after_success) = Inl (AxiosError ''Network Error'' None)"
    by (simp add: env_down_def)
  have m: "\<exists>k\<in>set REQUIRED_FEATURES. (k, '''') \<in> set (features state_missing)"
    by (simp add: REQUIRED_FEATURES_def state_missing_def)
  have 1: "result (run (handleSubmit env_up state_filled) state_filled) = Some poisonous_087"
    using handleSubmit_result_only_on_success
      [of env_up state_filled "AxiosResponse 200 poisonous_087"] ok r
    by simp
  have 2: "result (run (handleSubmit env_down state_after_success) state_after_success) =
      Some poisonous_087"
    using handleSubmit_result_only_on_success
      [of env_down state_after_success _ "AxiosError ''Network Error'' None"] d
    by (simp add: state_after_success_def)
  have 3: "result (run (handleSubmit env_down state_missing) state_missing) =
      Some poisonous_087"
    using handleSubmit_result_only_on_success [of env_down state_missing] m
    by (simp add: state_missing_def)
  from 1 2 3 show ?thesis by simp
qed

text \<open>
  C7, as stated, fails. The server rejects the prediction with an error body that
  carries the message field, and the message is the empty string: the form does not
  show that message but the generic one.
\<close>

theorem empty_message_field_shows_fallback:
  "axios_post env_empty_message (API_URL env_empty_message @ ''/predict'')
     (features state_filled) =
     Inl (AxiosError ''Request failed with status code 400''
            (Some (ErrorResponse 400 (Some (ErrorData (Some '''')))))) \<and>
   error (run (handleSubmit env_empty_message state_filled) state_filled) \<noteq> Some '''' \<and>
   error (run (handleSubmit env_empty_message state_filled) state_filled) =
     Some ''Failed to get prediction. Please try again.''"
proof -
  have v: "emptyRequiredFields (features state_filled) = []"
    by (simp add: emptyRequiredFields_Nil_iff REQUIRED_FEATURES_def
        state_filled_def all_required_filled_def)
  have r: "axios_post env_empty_message (API_URL env_empty_message @ ''/predict'')
     (features state_filled) =
     Inl (AxiosError ''Request failed with status code 400''
            (Some (ErrorResponse 400 (Some (ErrorData (Some ''''))))))"
    by (simp add: env_empty_message_def)
  show ?thesis
    by (simp add: handleSubmit_valid [OF v] r submit_catch_shape run_def)
qed

text \<open>
  C7, amended. When validation passes and the request is rejected, the attempt made
  one request and ends there: the error shown is the message field of the error
  response body when that field is present and not empty, and the generic message
  otherwise; loading is reset to false and no result is stored.
\<close>

theorem handleSubmit_request_failure:
  assumes "\<forall>k\<in>set REQUIRED_FEATURES. (k, '''') \<notin> set (features s)"
    and "axios_post e (API_URL e @ ''/predict'') (features s) = Inl err"
  shows "error (run (handleSubmit e s) s) =
           Some (case response_data_error err of
                   Some m \<Rightarrow> if m \<noteq> '''' then m
                             else ''Failed to get prediction. Please try again.''
                 | None \<Rightarrow> ''Failed to get prediction. Please try again.'') \<and>
         loading (run (handleSubmit e s) s) = False \<and>
         result (run (handleSubmit e s) s) = result s \<and>
         filter is_SetResult (handleSubmit e s) = [] \<and>
         requests (handleSubmit e s) = [AxiosPost (API_URL e @ ''/predict'') (features s)]"
proof -
  have "emptyRequiredFields (features s) = []"
    using assms(1) by (simp add: emptyRequiredFields_Nil_iff)
  then have "handleSubmit e s =
     [PreventDefault, SetLoading True, SetError None,
      AxiosPost (API_URL e @ ''/predict'') (features s),
      SetError (Some (case response_data_error err of
                        Some m \<Rightarrow> if m \<noteq> '''' then m
                                  else ''Failed to get prediction. Please try again.''
                      | None \<Rightarrow> ''Failed to get prediction. Please try again.'')),
      ConsoleError ''Prediction error:'' err,
      SetLoading False]"
    by (simp add: handleSubmit_valid assms(2) submit_catch_shape)
  then show ?thesis
    by (simp add: run_def requests_def)
qed

theorem handleSubmit_request_failure_witness:
  "error (run (handleSubmit env_message state_filled) state_filled) =
     Some ''Missing features'' \<and>
   error (run (handleSubmit env_down state_filled) state_filled) =
     Some ''Failed to get prediction. Please try again.'' \<and>
   loading (run (handleSubmit env_message state_filled) state_filled) = False \<and>
   result (run (handleSubmit env_message state_filled) state_filled) = None"
proof -
  have ok: "\<forall>k\<in>set REQUIRED_FEATURES. (k, '''') \<notin> set (features state_filled)"
    by (simp add: REQUIRED_FEATURES_def state_filled_def all_required_filled_def)
  have m: "axios_post env_message (API_URL env_message @ ''/predict'')
      (features state_filled) =
      Inl (AxiosError ''Request failed with status code 400''
             (Some (ErrorResponse 400 (Some (ErrorData (Some ''Missing features''))))))"
    by (simp add: env_message_def)
  have d: "axios_post env_down (API_URL env_down @ ''/predict'') (features state_filled) =
      Inl (AxiosError ''Network Error'' None)"
    by (simp add: env_down_def)
  show ?thesis
    using handleSubmit_request_failure [OF ok m] handleSubmit_request_failure [OF ok d]
    by (simp add: state_filled_def)
qed

subsection \<open>Image upload\<close>

text \<open>
  C8. With no file selection (\<open>null\<close>) or an empty one, \<open>handleImageUpload\<close> has no
  effect at all: no setter is called, so the state is the same, and no request is made.
\<close>

theorem handleImageUpload_no_file:
  assumes "files = None \<or> files = Some []"
  shows "handleImageUpload e s files = [] \<and>
         run (handleImageUpload e s files) s = s \<and>
         requests (handleImageUpload e s files) = []"
  using assms by (auto simp: handleImageUpload_def run_def requests_def)

theorem handleImageUpload_no_file_witness:
  "run (handleImageUpload env_up state_filled None) state_filled = state_filled \<and>
   requests (handleImageUpload env_up state_filled None) = [] \<and>
   run (handleImageUpload env_up state_filled (Some [])) state_filled = state_filled \<and>
   requests (handleImageUpload env_up state_filled (Some [])) = []"
  using handleImageUpload_no_file [of None env_up state_filled]
        handleImageUpload_no_file [of "Some []" env_up state_filled]
  by blast

lemma update_detected_snoc:
  "update_detected fs (ds @ [(k, v)]) =
     (if js_in k (update_detected fs ds) then js_assign (update_detected fs ds) k v
      else update_detected fs ds)"
  by (simp add: update_detected_def)

lemma update_detected_Nil: "update_detected fs [] = fs"
  by (simp add: update_detected_def)

text \<open>
  What the detected entries do to a mapping when none of them is a name inherited from
  \<open>Object.prototype\<close>: the keys stay as they are, a key of the mapping that was
  detected takes the value detected last, and every other key keeps its value.
\<close>

lemma update_detected_schema:
  assumes "\<forall>k\<in>fst ` set ds. k \<notin> set Object_prototype_names"
  shows "Object_keys (update_detected fs ds) = Object_keys fs \<and>
         (\<forall>k. map_of (update_detected fs ds) k =
              (if has_own fs k
               then (case map_of (rev ds) k of Some v \<Rightarrow> Some v | None \<Rightarrow> map_of fs k)
               else None))"
  using assms
proof (induction ds rule: rev_induct)
  case Nil
  then show ?case
    by (auto simp: update_detected_Nil has_own_map_of)
next
  case (snoc d ds)
  obtain k v where d: "d = (k, v)" by (cases d)
  let ?u = "update_detected fs ds"
  from snoc have ih_keys: "Object_keys ?u = Object_keys fs"
    and ih_map: "\<And>k. map_of ?u k =
              (if has_own fs k
               then (case map_of (rev ds) k of Some v \<Rightarrow> Some v | None \<Rightarrow> map_of fs k)
               else None)"
    by simp_all
  from snoc.prems d have np: "k \<notin> set Object_prototype_names" by simp
  have own: "has_own ?u k \<longleftrightarrow> has_own fs k"
    by (simp add: has_own_def ih_keys)
  show ?case
  proof (cases "has_own fs k")
    case True
    then have step: "update_detected fs (ds @ [d]) = define_property ?u k v"
      by (simp add: d update_detected_snoc js_in_def js_assign_def own)
    show ?thesis
      unfolding step
      by (auto simp: keys_define_property own True ih_keys map_of_define_property ih_map d)
  next
    case False
    then have step: "update_detected fs (ds @ [d]) = ?u"
      by (simp add: d update_detected_snoc js_in_def own np)
    show ?thesis
      unfolding step using False
      by (auto simp: ih_keys ih_map d)
  qed
qed

lemma image_upload_sets_features:
  assumes "fetch e (API_URL e @ ''/analyze-image'') [(''image'', file)] =
      Inr (FetchResponse True (Inr (JsonValue (Some ds))))"
  shows "features (run (handleImageUpload e s (Some (file # rest))) s) =
           update_detected (features s) ds"
  using assms
  by (simp add: handleImageUpload_def Let_def run_def spread_def Object_entries_def)

lemma handleImageUpload_schema_keys:
  assumes "fetch e (API_URL e @ ''/analyze-image'') [(''image'', file)] =
      Inr (FetchResponse True (Inr (JsonValue (Some ds))))"
    and "\<forall>k\<in>fst ` set ds. k \<notin> set Object_prototype_names"
  shows "Object_keys (features (run (handleImageUpload e s (Some (file # rest))) s)) =
           Object_keys (features s)"
  using update_detected_schema [OF assms(2)]
  by (simp add: image_upload_sets_features [OF assms(1)])

text \<open>
  C3 does not hold of the code. The form has the four keys \<open>cap-shape\<close>, \<open>odor\<close>,
  \<open>veil-type\<close> and \<open>spore-print-color\<close>; the analysis detects \<open>odor\<close>, \<open>toString\<close>
  and \<open>colour\<close>. The value of \<open>odor\<close> is overwritten and \<open>colour\<close> is ignored, but
  \<open>toString\<close>, which is no key of the form, passes the test \<open>key in newFeatures\<close>
  through the prototype, and the form gets a fifth entry.
\<close>

theorem handleImageUpload_creates_inherited_key:
  "Object_keys (features state_missing) =
     [''cap-shape'', ''odor'', ''veil-type'', ''spore-print-color''] \<and>
   fetch env_up (API_URL env_up @ ''/analyze-image'') [(''image'', File ''cap.png'' '''')] =
     Inr (FetchResponse True
            (Inr (JsonValue (Some [(''odor'', ''f''), (''toString'', ''x''),
                                   (''colour'', ''red'')])))) \<and>
   features (run (handleImageUpload env_up state_missing (Some [File ''cap.png'' '''']))
               state_missing) =
     [(''cap-shape'', ''''), (''odor'', ''f''), (''veil-type'', ''''),
      (''spore-print-color'', ''''), (''toString'', ''x'')]"
proof -
  have f: "fetch env_up (API_URL env_up @ ''/analyze-image'') [(''image'', File ''cap.png'' '''')] =
     Inr (FetchResponse True
            (Inr (JsonValue (Some [(''odor'', ''f''), (''toString'', ''x''),
                                   (''colour'', ''red'')]))))"
    by (simp add: env_up_def)
  have u: "update_detected (features state_missing)
       [(''odor'', ''f''), (''toString'', ''x''), (''colour'', ''red'')] =
     [(''cap-shape'', ''''), (''odor'', ''f''), (''veil-type'', ''''),
      (''spore-print-color'', ''''), (''toString'', ''x'')]"
    by (simp add: update_detected_def state_missing_def js_defs)
  have k: "Object_keys (features state_missing) =
     [''cap-shape'', ''odor'', ''veil-type'', ''spore-print-color'']"
    by (simp add: state_missing_def Object_keys_def)
  from f k u image_upload_sets_features [OF f, of state_missing "[]"] show ?thesis
    by simp
qed

subsection \<open>The API client\<close>

text \<open>
  C5. Each of \<open>predictMushroom\<close>, \<open>analyzeImage\<close> and \<open>checkHealth\<close> makes exactly
  one request. When the request is fulfilled the function returns the body of the
  response and logs nothing; when it is rejected the function logs the error once and
  fails with that same error.
\<close>

theorem api_client_single_attempt_rethrow:
  "(post_p (API_BASE_URL @ ''/api/predict'') (Json fs) = Inr r_p \<longrightarrow>
      snd (predictMushroom post_p fs) = Inr (data r_p) \<and>
      filter (\<lambda>ev. \<not> is_api_request ev) (fst (predictMushroom post_p fs)) = []) \<and>
   (post_p (API_BASE_URL @ ''/api/predict'') (Json fs) = Inl err \<longrightarrow>
      snd (predictMushroom post_p fs) = Inl err \<and>
      filter (\<lambda>ev. \<not> is_api_request ev) (fst (predictMushroom post_p fs)) =
        [ApiConsoleError ''Error predicting mushroom:'' err]) \<and>
   filter is_api_request (fst (predictMushroom post_p fs)) =
     [ApiPost (API_BASE_URL @ ''/api/predict'') [(''Content-Type'', ''application/json'')]
        (Json fs)] \<and>
   (post_a (API_BASE_URL @ ''/analyze-image'') (FormData [(''image'', imageFile)]) = Inr r_a \<longrightarrow>
      snd (analyzeImage post_a imageFile) = Inr (data r_a) \<and>
      filter (\<lambda>ev. \<not> is_api_request ev) (fst (analyzeImage post_a imageFile)) = []) \<and>
   (post_a (API_BASE_URL @ ''/analyze-image'') (FormData [(''image'', imageFile)]) = Inl err \<longrightarrow>
      snd (analyzeImage post_a imageFile) = Inl err \<and>
      filter (\<lambda>ev. \<not> is_api_request ev) (fst (analyzeImage post_a imageFile)) =
        [ApiConsoleError ''Error analyzing image:'' err]) \<and>
   filter is_api_request (fst (analyzeImage post_a imageFile)) =
     [ApiPost (API_BASE_URL @ ''/analyze-image'')
        [(''Content-Type'', ''multipart/form-data'')] (FormData [(''image'', imageFile)])] \<and>
   (get_h (API_BASE_URL @ ''/api/health'') = Inr r_h \<longrightarrow>
      snd (checkHealth get_h) = Inr (data r_h) \<and>
      filter (\<lambda>ev. \<not> is_api_request ev) (fst (checkHealth get_h)) = []) \<and>
   (get_h (API_BASE_URL @ ''/api/health'') = Inl err \<longrightarrow>
      snd (checkHealth get_h) = Inl err \<and>
      filter (\<lambda>ev. \<not> is_api_request ev) (fst (checkHealth get_h)) =
        [ApiConsoleError ''Error checking health:'' err]) \<and>
   filter is_api_request (fst (checkHealth get_h)) =
     [ApiGet (API_BASE_URL @ ''/api/health'') [(''Content-Type'', ''application/json'')]]"
proof -
  have 1: "(post_p (API_BASE_URL @ ''/api/predict'') (Json fs) = Inr r_p \<longrightarrow>
      snd (predictMushroom post_p fs) = Inr (data r_p) \<and>
      filter (\<lambda>ev. \<not> is_api_request ev) (fst (predictMushroom post_p fs)) = [])"
    by (simp add: predictMushroom_def Let_def)
  have 2: "(post_p (API_BASE_URL @ ''/api/predict'') (Json fs) = Inl err \<longrightarrow>
      snd (predictMushroom post_p fs) = Inl err \<and>
      filter (\<lambda>ev. \<not> is_api_request ev) (fst (predictMushroom post_p fs)) =
        [ApiConsoleError ''Error predicting mushroom:'' err])"
    by (simp add: predictMushroom_def Let_def)
  have 3: "filter is_api_request (fst (predictMushroom post_p fs)) =
     [ApiPost (API_BASE_URL @ ''/api/predict'') [(''Content-Type'', ''application/json'')]
        (Json fs)]"
    by (simp add: predictMushroom_def Let_def split: sum.splits)
  have 4: "(post_a (API_BASE_URL @ ''/analyze-image'') (FormData [(''image'', imageFile)]) = Inr r_a \<longrightarrow>
      snd (analyzeImage post_a imageFile) = Inr (data r_a) \<and>
      filter (\<lambda>ev. \<not> is_api_request ev) (fst (analyzeImage post_a imageFile)) = [])"
    by (simp add: analyzeImage_def Let_def)
  have 5: "(post_a (API_BASE_URL @ ''/analyze-image'') (FormData [(''image'', imageFile)]) = Inl err \<longrightarrow>
      snd (analyzeImage post_a imageFile) = Inl err \<and>
      filter (\<lambda>ev. \<not> is_api_request ev) (fst (analyzeImage post_a imageFile)) =
        [ApiConsoleError ''Error analyzing image:'' err])"
    by (simp add: analyzeImage_def Let_def)
  have 6: "filter is_api_request (fst (analyzeImage post_a imageFile)) =
     [ApiPost (API_BASE_URL @ ''/analyze-image'')
        [(''Content-Type'', ''multipart/form-data'')] (FormData [(''image'', imageFile)])]"
    by (simp add: analyzeImage_def Let_def split: sum.splits)
  have 7: "(get_h (API_BASE_URL @ ''/api/health'') = Inr r_h \<longrightarrow>
      snd (checkHealth get_h) = Inr (data r_h) \<and>
      filter (\<lambda>ev. \<not> is_api_request ev) (fst (checkHealth get_h)) = [])"
    by (simp add: checkHealth_def Let_def)
  have 8: "(get_h (API_BASE_URL @ ''/api/health'') = Inl err \<longrightarrow>
      snd (checkHealth get_h) = Inl err \<and>
      filter (\<lambda>ev. \<not> is_api_request ev) (fst (checkHealth get_h)) =
        [ApiConsoleError ''Error checking health:'' err])"
    by (simp add: checkHealth_def Let_def)
  have 9: "filter is_api_request (fst (checkHealth get_h)) =
     [ApiGet (API_BASE_URL @ ''/api/health'') [(''Content-Type'', ''application/json'')]]"
    by (simp add: checkHealth_def Let_def split: sum.splits)
  from 1 2 3 4 5 6 7 8 9 show ?thesis by blast
qed

theorem api_client_single_attempt_rethrow_witness:
  "snd (predictMushroom
          (\<lambda>url body. Inl (AxiosError ''Network Error'' None)
             :: thrown + prediction_result axios_response)
          all_required_filled) =
     Inl (AxiosError ''Network Error'' None) \<and>
   snd (predictMushroom (\<lambda>url body. Inr (AxiosResponse 200 poisonous_087))
          all_required_filled) =
     Inr poisonous_087 \<and>
   snd (analyzeImage
          (\<lambda>url body. Inr (AxiosResponse 200 [(''odor'', ''f'')])) (File ''cap.png'' '''')) =
     Inr [(''odor'', ''f'')] \<and>
   snd (analyzeImage
          (\<lambda>url body. Inl (AxiosError ''Network Error'' None)
             :: thrown + js_object axios_response)
          (File ''cap.png'' '''')) =
     Inl (AxiosError ''Network Error'' None) \<and>
   snd (checkHealth (\<lambda>url. Inr (AxiosResponse 200 ''healthy''))) = Inr ''healthy'' \<and>
   snd (checkHealth
          (\<lambda>url. Inl (AxiosError ''Network Error'' None) :: thrown + string axios_response)) =
     Inl (AxiosError ''Network Error'' None)"
proof -
  note down = api_client_single_attempt_rethrow
    [where post_p = "\<lambda>url body. Inl (AxiosError ''Network Error'' None)
                       :: thrown + prediction_result axios_response"
       and fs = all_required_filled and err = "AxiosError ''Network Error'' None"
       and r_p = "AxiosResponse 200 poisonous_087"
       and post_a = "\<lambda>url body. Inl (AxiosError ''Network Error'' None)
                       :: thrown + js_object axios_response"
       and imageFile = "File ''cap.png'' ''''"
       and r_a = "AxiosResponse 200 [(''odor'', ''f'')]"
       and get_h = "\<lambda>url. Inl (AxiosError ''Network Error'' None)
                       :: thrown + string axios_response"
       and r_h = "AxiosResponse 200 ''healthy''"]
  note up = api_client_single_attempt_rethrow
    [where post_p = "\<lambda>url body. Inr (AxiosResponse 200 poisonous_087)"
       and fs = all_required_filled and err = "AxiosError ''Network Error'' None"
       and r_p = "AxiosResponse 200 poisonous_087"
       and post_a = "\<lambda>url body. Inr (AxiosResponse 200 [(''odor'', ''f'')])"
       and imageFile = "File ''cap.png'' ''''"
       and r_a = "AxiosResponse 200 [(''odor'', ''f'')]"
       and get_h = "\<lambda>url. Inr (AxiosResponse 200 ''healthy'')"
       and r_h = "AxiosResponse 200 ''healthy''"]
  from down have 1: "snd (predictMushroom
          (\<lambda>url body. Inl (AxiosError ''Network Error'' None)
             :: thrown + prediction_result axios_response)
          all_required_filled) =
     Inl (AxiosError ''Network Error'' None)"
    by simp
  from up have 2: "snd (predictMushroom (\<lambda>url body. Inr (AxiosResponse 200 poisonous_087))
          all_required_filled) =
     Inr poisonous_087"
    by simp
  from up have 3: "snd (analyzeImage
          (\<lambda>url body. Inr (AxiosResponse 200 [(''odor'', ''f'')])) (File ''cap.png'' '''')) =
     Inr [(''odor'', ''f'')]"
    by simp
  from down have 4: "snd (analyzeImage
          (\<lambda>url body. Inl (AxiosError ''Network Error'' None)
             :: thrown + js_object axios_response)
          (File ''cap.png'' '''')) =
     Inl (AxiosError ''Network Error'' None)"
    by simp
  from up have 5: "snd (checkHealth (\<lambda>url. Inr (AxiosResponse 200 ''healthy''))) =
      Inr ''healthy''"
    by simp
  from down have 6: "snd (checkHealth
          (\<lambda>url. Inl (AxiosError ''Network Error'' None) :: thrown + string axios_response)) =
     Inl (AxiosError ''Network Error'' None)"
    by simp
  from 1 2 3 4 5 6 show ?thesis by simp
qed

end
